theory Spec2Isabelle
  imports Complex_Main "HOL-Library.Sublist"
begin

section \<open>Data model: pandas tables\<close>

text \<open>
  A DataFrame is an ordered list of named columns. A column carries its pandas dtype and
  its cells. A cell is \<open>NaN\<close> (\<open>Null\<close>), \<open>None\<close>, an integer, a finite float (the
  rational it denotes), an infinite float (\<open>PyInfinity True\<close> is \<open>+inf\<close>), a Python
  string or a Python bool. A string is the list of its characters. The dtype \<open>Other\<close>
  stands for the non-numeric dtypes besides \<open>object\<close>.
\<close>

datatype cell =
  Null | PyNone | PyInt int | PyFloat rat | PyInfinity bool | PyStr string | PyBool bool

datatype dtype = Object | Int64 | Float64 | BoolT | Other string

record column =
  dtype :: dtype
  cells :: "cell list"

type_synonym table = "(string \<times> column) list"

text \<open>\<open>pd.isna\<close> of a cell: \<open>NaN\<close> and \<open>None\<close> are missing.\<close>

fun isnull :: "cell \<Rightarrow> bool" where
  "isnull Null = True"
| "isnull PyNone = True"
| "isnull c = False"

text \<open>\<open>pd.api.types.is_numeric_dtype\<close> on the dtypes of the model.\<close>

fun is_numeric_dtype :: "dtype \<Rightarrow> bool" where
  "is_numeric_dtype Int64 = True"
| "is_numeric_dtype Float64 = True"
| "is_numeric_dtype BoolT = True"
| "is_numeric_dtype Object = False"
| "is_numeric_dtype (Other s) = False"

text \<open>
  \<open>Series.astype(str)\<close>, cell by cell. How Python prints a finite number is the
  parameter \<open>fmt\<close>; the other cases are fixed by Python.
\<close>

fun astype_str :: "(cell \<Rightarrow> string) \<Rightarrow> cell \<Rightarrow> string" where
  "astype_str fmt Null = ''nan''"
| "astype_str fmt PyNone = ''None''"
| "astype_str fmt (PyInfinity b) = (if b then ''inf'' else ''-inf'')"
| "astype_str fmt (PyStr s) = s"
| "astype_str fmt (PyBool b) = (if b then ''True'' else ''False'')"
| "astype_str fmt c = fmt c"

datatype error = ValueError | MySQLError | FileNotFoundError | DatabaseError

text \<open>
  What the scripts ask of pandas and do not define themselves:
  \<open>pd.to_numeric(series, errors='coerce')\<close>, \<open>Series.median()\<close> and the printing of a
  number by \<open>astype(str)\<close>. They are parameters of the model. \<open>numeric_library\<close> says
  what the cleaning transform relies on: \<open>to_numeric\<close> returns a numeric column and
  returns a numeric column as it is, and a median is never a string.
\<close>

record pandas =
  to_numeric :: "column \<Rightarrow> column"
  median :: "column \<Rightarrow> cell"
  number_str :: "cell \<Rightarrow> string"


section \<open>Table operations (pandas)\<close>

definition columns :: "table \<Rightarrow> string list" where
  "columns df = map fst df"

text \<open>\<open>len(df)\<close>: the number of rows, read off the first column.\<close>

definition nrows :: "table \<Rightarrow> nat" where
  "nrows df = (case df of [] \<Rightarrow> 0 | (n, c) # rest \<Rightarrow> length (cells c))"

text \<open>
  \<open>df[col]\<close> is \<open>map_of df col\<close>; every read of the source is guarded by
  \<open>col in df.columns\<close>, the \<open>None\<close> case. \<open>df[col] = v\<close> for a column that exists
  replaces it in place.
\<close>

definition set_col :: "string \<Rightarrow> column \<Rightarrow> table \<Rightarrow> table" where
  "set_col name v df = map (\<lambda>(n, c). if n = name then (n, v) else (n, c)) df"

definition drop_columns :: "string list \<Rightarrow> table \<Rightarrow> table" where
  "drop_columns names df = filter (\<lambda>(n, c). n \<notin> set names) df"

text \<open>
  \<open>Series.fillna(value)\<close>: the missing cells take the value; a string value turns the
  column into an object column.
\<close>

definition fillna :: "cell \<Rightarrow> column \<Rightarrow> column" where
  "fillna v col =
     (if list_ex isnull (cells col)
      then \<lparr>dtype = (case v of PyStr s \<Rightarrow> Object | _ \<Rightarrow> dtype col),
            cells = map (\<lambda>c. if isnull c then v else c) (cells col)\<rparr>
      else col)"

text \<open>
  \<open>duplicated(keep='first')\<close>: a value is a duplicate when it occurred before. Python
  compares \<open>1\<close>, \<open>1.0\<close> and \<open>True\<close> as equal, so cells are compared through
  \<open>key_of\<close>. Two \<open>NaN\<close> count as equal and so do two \<open>None\<close>, but \<open>None\<close> and
  \<open>NaN\<close> are different keys.
\<close>

fun duplicated_from :: "'a list \<Rightarrow> 'a list \<Rightarrow> bool list" where
  "duplicated_from seen [] = []"
| "duplicated_from seen (x # xs) = (x \<in> set seen) # duplicated_from (x # seen) xs"

definition duplicated :: "'a list \<Rightarrow> bool list" where
  "duplicated xs = duplicated_from [] xs"

fun key_of :: "cell \<Rightarrow> cell" where
  "key_of (PyInt i) = PyFloat (of_int i)"
| "key_of (PyBool b) = PyFloat (if b then 1 else 0)"
| "key_of c = c"

text \<open>The rows of a table, each the list of its cells' keys.\<close>

definition row_keys :: "table \<Rightarrow> cell list list" where
  "row_keys df = transpose (map (\<lambda>(n, c). map key_of (cells c)) df)"

text \<open>\<open>df[mask]\<close>: the rows where the boolean mask is true, in every column.\<close>

definition keep_rows :: "bool list \<Rightarrow> column \<Rightarrow> column" where
  "keep_rows keep col = col\<lparr>cells := map fst (filter snd (zip (cells col) keep))\<rparr>"

definition select_rows :: "bool list \<Rightarrow> table \<Rightarrow> table" where
  "select_rows keep df = map (\<lambda>(n, c). (n, keep_rows keep c)) df"

definition drop_duplicates_subset :: "string \<Rightarrow> table \<Rightarrow> table" where
  "drop_duplicates_subset name df =
     (case map_of df name of
        None \<Rightarrow> df
      | Some c \<Rightarrow> select_rows (map Not (duplicated (map key_of (cells c)))) df)"

definition drop_duplicates :: "table \<Rightarrow> table" where
  "drop_duplicates df = select_rows (map Not (duplicated (row_keys df))) df"

text \<open>\<open>list(dict.fromkeys(xs))\<close>: the first occurrence of each element, in order.\<close>

definition fromkeys :: "'a list \<Rightarrow> 'a list" where
  "fromkeys xs = rev (remdups (rev xs))"

section \<open>Cleaning transform (spotify\_analysis.py, clean\_data)\<close>

definition text_columns :: "string list" where
  "text_columns = [''artists'', ''album_name'', ''track_name'']"

definition declared_numeric :: "string list" where
  "declared_numeric =
     [''danceability'', ''energy'', ''loudness'', ''speechiness'', ''acousticness'',
      ''instrumentalness'', ''liveness'', ''valence'', ''tempo'', ''duration_ms'',
      ''key'', ''mode'', ''time_signature'', ''popularity'']"

definition audio_features :: "string list" where
  "audio_features =
     [''danceability'', ''energy'', ''valence'', ''loudness'', ''speechiness'',
      ''acousticness'', ''instrumentalness'', ''liveness'']"

text \<open>Step 2, one round of the loop: \<open>df[col] = df[col].fillna('Unknown')\<close>.\<close>

definition fill_text :: "table \<Rightarrow> string \<Rightarrow> table" where
  "fill_text df col =
     (case map_of df col of
        None \<Rightarrow> df
      | Some c \<Rightarrow> set_col col (fillna (PyStr ''Unknown'') c) df)"

text \<open>
  Step 3, the heuristic. \<open>sample = df[col].dropna().astype(str).head(20)\<close>, an object
  series of strings, then \<open>pd.to_numeric(sample, errors='coerce').notna().sum()\<close>.
\<close>

definition sample :: "pandas \<Rightarrow> column \<Rightarrow> string list" where
  "sample pd col =
     take 20 (map (astype_str (number_str pd)) (filter (\<lambda>c. \<not> isnull c) (cells col)))"

definition notna_sum :: "pandas \<Rightarrow> string list \<Rightarrow> nat" where
  "notna_sum pd smp =
     length (filter (\<lambda>c. \<not> isnull c)
       (cells (to_numeric pd \<lparr>dtype = Object, cells = map PyStr smp\<rparr>)))"

definition add_candidate :: "pandas \<Rightarrow> table \<Rightarrow> string list \<Rightarrow> string \<Rightarrow> string list" where
  "add_candidate pd df numeric_candidates col =
     (if col \<in> set numeric_candidates then numeric_candidates
      else (case map_of df col of
              None \<Rightarrow> numeric_candidates
            | Some c \<Rightarrow>
                if dtype c = Object then
                  (let smp = sample pd c
                   in if length smp = 0 then numeric_candidates
                      else if notna_sum pd smp \<ge> max 1 (length smp div 2)
                      then numeric_candidates @ [col]
                      else numeric_candidates)
                else numeric_candidates))"

definition numeric_candidates :: "pandas \<Rightarrow> table \<Rightarrow> string list" where
  "numeric_candidates pd df =
     fromkeys (foldl (add_candidate pd df) declared_numeric (columns df))"

text \<open>Step 3, one round of the coercion loop.\<close>

definition coerce_fill :: "pandas \<Rightarrow> table \<Rightarrow> string \<Rightarrow> table" where
  "coerce_fill pd df col =
     (case map_of df col of
        None \<Rightarrow> df
      | Some c \<Rightarrow>
          (let c1 = to_numeric pd c; df1 = set_col col c1 df; m = median pd c1
           in if \<not> isnull m then set_col col (fillna m c1) df1 else df1))"

text \<open>Step 5, one round of the loop over the audio features.\<close>

definition ensure_numeric :: "pandas \<Rightarrow> table \<Rightarrow> string \<Rightarrow> table" where
  "ensure_numeric pd df col =
     (case map_of df col of
        None \<Rightarrow> df
      | Some c \<Rightarrow>
          (let c1 = to_numeric pd c; df1 = set_col col c1 df
           in if list_ex isnull (cells c1)
              then set_col col (fillna (median pd c1) c1) df1 else df1))"

text \<open>
  The five numbered steps of \<open>clean_data\<close>, each as a function on tables, and
  \<open>clean_data\<close> as a function from the table passed in to the table returned.
\<close>

definition drop_index_column :: "table \<Rightarrow> table" where
  "drop_index_column df =
     (if ''Unnamed: 0'' \<in> set (columns df) then drop_columns [''Unnamed: 0''] df else df)"

definition fill_text_columns :: "table \<Rightarrow> table" where
  "fill_text_columns df = foldl fill_text df text_columns"

definition coerce_numeric :: "pandas \<Rightarrow> table \<Rightarrow> table" where
  "coerce_numeric pd df = foldl (coerce_fill pd) df (numeric_candidates pd df)"

definition remove_duplicate_tracks :: "table \<Rightarrow> table" where
  "remove_duplicate_tracks df =
     (if ''track_id'' \<in> set (columns df)
      then drop_duplicates_subset ''track_id'' df
      else drop_duplicates df)"

definition ensure_audio_numeric :: "pandas \<Rightarrow> table \<Rightarrow> table" where
  "ensure_audio_numeric pd df = foldl (ensure_numeric pd) df audio_features"

definition clean_data :: "pandas \<Rightarrow> table \<Rightarrow> table" where
  "clean_data pd df =
     (let df1 = drop_index_column df;
          df2 = fill_text_columns df1;
          df3 = coerce_numeric pd df2;
          df4 = remove_duplicate_tracks df3
      in ensure_audio_numeric pd df4)"

text \<open>
  \<open>clean_data\<close> on a store of DataFrame objects, addressed by their position: \<open>copy\<close>,
  \<open>drop\<close> and \<open>drop_duplicates\<close> make a new object, \<open>df[col] = ...\<close> writes into the
  object \<open>df\<close> names. The result is the object returned and the store after the call.
\<close>

type_synonym store = "table list"

definition new_object :: "table \<Rightarrow> store \<Rightarrow> nat \<times> store" where
  "new_object t h = (length h, h @ [t])"

definition clean_data_store :: "pandas \<Rightarrow> nat \<Rightarrow> store \<Rightarrow> nat \<times> store" where
  "clean_data_store pd df0 h0 =
     (let (df, h) = new_object (h0 ! df0) h0;
          (df, h) = (if ''Unnamed: 0'' \<in> set (columns (h ! df))
                     then new_object (drop_columns [''Unnamed: 0''] (h ! df)) h
                     else (df, h));
          h = foldl (\<lambda>h col. h[df := fill_text (h ! df) col]) h text_columns;
          h = foldl (\<lambda>h col. h[df := coerce_fill pd (h ! df) col]) h
                (numeric_candidates pd (h ! df));
          (df, h) = (if ''track_id'' \<in> set (columns (h ! df))
                     then new_object (drop_duplicates_subset ''track_id'' (h ! df)) h
                     else new_object (drop_duplicates (h ! df)) h)
      in (df, foldl (\<lambda>h col. h[df := ensure_numeric pd (h ! df) col]) h audio_features))"

section \<open>Quality report (spotify\_analysis.py, validate\_cleaned\_data)\<close>

text \<open>
  The issue strings, by kind and with the values they print: "Found n duplicate
  track\_ids", "Column 'c' has n missing values", "Audio features not numeric: [...]",
  "'Unnamed: 0' column still present (should be dropped)" and "Data quality checks
  passed".
\<close>

datatype issue =
  DuplicateTrackIds nat
| MissingValues string nat
| AudioNotNumeric "string list"
| UnnamedStillPresent
| ChecksPassed

record report =
  total_rows :: nat
  total_columns :: nat
  missing_values :: "(string \<times> nat) list"
  duplicates :: nat
  duplicate_tracks :: nat
  column_types :: "(string \<times> dtype) list"
  issues :: "issue list"

text \<open>\<open>Series.isnull().sum()\<close> and the \<open>sum()\<close> of a boolean series.\<close>

definition isnull_sum :: "column \<Rightarrow> nat" where
  "isnull_sum col = length (filter isnull (cells col))"

definition true_sum :: "bool list \<Rightarrow> nat" where
  "true_sum bs = length (filter (\<lambda>b. b) bs)"

definition critical_cols :: "string list" where
  "critical_cols = [''track_id'', ''artists'', ''track_name'', ''popularity'']"

definition report_audio_features :: "string list" where
  "report_audio_features =
     [''danceability'', ''energy'', ''valence'', ''loudness'', ''speechiness'',
      ''acousticness'', ''instrumentalness'', ''liveness'', ''tempo'']"

text \<open>The check of duplicate track ids: the count and the issue it appends.\<close>

definition check_duplicate_tracks :: "table \<Rightarrow> nat \<times> issue list" where
  "check_duplicate_tracks df =
     (case map_of df ''track_id'' of
        None \<Rightarrow> (0, [])
      | Some c \<Rightarrow>
          (let n = true_sum (duplicated (map key_of (cells c)))
           in (n, if n > 0 then [DuplicateTrackIds n] else [])))"

text \<open>One round of the loop over the critical columns.\<close>

definition check_critical :: "table \<Rightarrow> string \<Rightarrow> issue list" where
  "check_critical df col =
     (case map_of df col of
        None \<Rightarrow> []
      | Some c \<Rightarrow>
          (let missing = isnull_sum c
           in if missing > 0 then [MissingValues col missing] else []))"

definition non_numeric_audio :: "table \<Rightarrow> string list" where
  "non_numeric_audio df =
     filter (\<lambda>col. case map_of df col of
                     None \<Rightarrow> False
                   | Some c \<Rightarrow> \<not> is_numeric_dtype (dtype c)) report_audio_features"

definition validate_cleaned_data :: "table \<Rightarrow> report" where
  "validate_cleaned_data df =
     (let (dup, found1) = check_duplicate_tracks df;
          found2 = concat (map (check_critical df) critical_cols);
          found3 = (if non_numeric_audio df \<noteq> []
                    then [AudioNotNumeric (non_numeric_audio df)] else []);
          found4 = (if ''Unnamed: 0'' \<in> set (columns df) then [UnnamedStillPresent] else []);
          found = found1 @ found2 @ found3 @ found4
      in \<lparr>total_rows = nrows df,
          total_columns = length (columns df),
          missing_values = map (\<lambda>(n, c). (n, isnull_sum c)) df,
          duplicates = true_sum (duplicated (row_keys df)),
          duplicate_tracks = dup,
          column_types = map (\<lambda>(n, c). (n, dtype c)) df,
          issues = (if found = [] then [ChecksPassed] else found)\<rparr>)"

section \<open>Examples: a library instance and tables\<close>

text \<open>
  A library instance for the examples. Their columns are numeric columns of a few small
  finite values and missing cells, and object columns that hold missing cells and the
  strings a, b, x, y, Red and strings of 1 to 4 decimal digits. On these columns the
  instance returns what pandas returns: a string of decimal digits (here up to 15) reads
  as the integer it writes, the other strings as no number, \<open>None\<close> becomes \<open>NaN\<close>,
  and the result is float64 when a \<open>NaN\<close> or a float occurs and int64 otherwise; the
  median sorts the values, the infinite ones at the ends, and takes the middle one or
  the mean of the two middle ones, \<open>NaN\<close> for \<open>+inf\<close> and \<open>-inf\<close>. No example
  prints a number. On other columns the instance is not meant to follow pandas; the
  theorems that hold for every library do not use it.
\<close>

definition digit_val :: "char \<Rightarrow> int" where
  "digit_val c = int (of_char c) - 48"

definition digits_number :: "string \<Rightarrow> cell" where
  "digits_number s =
     (if s \<noteq> [] \<and> length s \<le> 15 \<and> list_all (\<lambda>c. c \<in> set ''0123456789'') s
      then PyInt (foldl (\<lambda>n c. 10 * n + digit_val c) 0 s)
      else Null)"

fun example_coerce :: "cell \<Rightarrow> cell" where
  "example_coerce (PyStr s) = digits_number s"
| "example_coerce PyNone = Null"
| "example_coerce c = c"

fun is_float :: "cell \<Rightarrow> bool" where
  "is_float Null = True"
| "is_float (PyFloat x) = True"
| "is_float (PyInfinity b) = True"
| "is_float c = False"

fun as_float :: "cell \<Rightarrow> cell" where
  "as_float (PyInt i) = PyFloat (of_int i)"
| "as_float c = c"

definition example_to_numeric :: "column \<Rightarrow> column" where
  "example_to_numeric col =
     (if is_numeric_dtype (dtype col) then col
      else (let cs = map example_coerce (cells col)
            in if list_ex is_float cs
               then \<lparr>dtype = Float64, cells = map as_float cs\<rparr>
               else \<lparr>dtype = Int64, cells = cs\<rparr>))"

fun finite_val :: "cell \<Rightarrow> rat option" where
  "finite_val (PyInt i) = Some (of_int i)"
| "finite_val (PyFloat x) = Some x"
| "finite_val (PyBool b) = Some (if b then 1 else 0)"
| "finite_val c = None"

fun mean2 :: "cell \<Rightarrow> cell \<Rightarrow> cell" where
  "mean2 (PyFloat a) (PyFloat b) = PyFloat ((a + b) / 2)"
| "mean2 (PyInfinity s) (PyInfinity t) = (if s = t then PyInfinity s else Null)"
| "mean2 (PyInfinity s) c = PyInfinity s"
| "mean2 c (PyInfinity t) = PyInfinity t"
| "mean2 c d = Null"

definition example_median :: "column \<Rightarrow> cell" where
  "example_median col =
     (let xs = replicate (length (filter (\<lambda>c. c = PyInfinity False) (cells col)))
                 (PyInfinity False) @
               map PyFloat (sort (List.map_filter finite_val (cells col))) @
               replicate (length (filter (\<lambda>c. c = PyInfinity True) (cells col)))
                 (PyInfinity True);
          n = length xs
      in if n = 0 then Null
         else if odd n then xs ! (n div 2)
         else mean2 (xs ! (n div 2 - 1)) (xs ! (n div 2)))"

definition example_pandas :: pandas where
  "example_pandas =
     \<lparr>to_numeric = example_to_numeric, median = example_median, number_str = (\<lambda>c. ''0'')\<rparr>"



text \<open>
  Four rows, three of them with the same track id; the album of the last track is
  named 1989.
\<close>

definition repeated_tracks :: table where
  "repeated_tracks =
     [(''track_id'',
       \<lparr>dtype = Object, cells = [PyStr ''a'', PyStr ''a'', PyStr ''a'', PyStr ''b'']\<rparr>),
      (''album_name'',
       \<lparr>dtype = Object,
        cells = [PyStr ''Red'', PyStr ''Red'', PyStr ''Red'', PyStr ''1989'']\<rparr>)]"

text \<open>Track ids of which two are \<open>None\<close> and one is \<open>NaN\<close>.\<close>

definition missing_ids :: table where
  "missing_ids =
     [(''track_id'', \<lparr>dtype = Object, cells = [PyNone, Null, PyStr ''a'', PyNone]\<rparr>)]"

text \<open>A text column of three values of which one reads as a number.\<close>

definition one_of_three :: column where
  "one_of_three = \<lparr>dtype = Object, cells = [PyStr ''1'', PyStr ''x'', PyStr ''y'']\<rparr>"

text \<open>
  One repeated track id and one missing artist, with and without the index column a
  CSV export leaves behind.
\<close>

definition flawed :: table where
  "flawed =
     [(''track_id'', \<lparr>dtype = Object, cells = [PyStr ''a'', PyStr ''a'', PyStr ''b'']\<rparr>),
      (''artists'', \<lparr>dtype = Object, cells = [Null, PyStr ''x'', PyStr ''y'']\<rparr>),
      (''danceability'', \<lparr>dtype = Float64, cells = [PyFloat 1, PyFloat 2, PyFloat 3]\<rparr>)]"

definition flawed_with_index :: table where
  "flawed_with_index =
     (''Unnamed: 0'', \<lparr>dtype = Int64, cells = [PyInt 0, PyInt 1, PyInt 2]\<rparr>) # flawed"

section \<open>Sink writers: column types (csv\_to\_mysql.py, migrate\_sqlite\_to\_mysql.py)\<close>

datatype sql_type = VARCHAR nat | VARCHAR_nan | BIGINT | DOUBLE | BOOLEAN | TEXT

text \<open>
  \<open>df[col].astype(str).str.len().max()\<close>: the longest printed cell, and \<open>NaN\<close>
  (here \<open>None\<close>) for a column without rows.
\<close>

definition str_len_max :: "(cell \<Rightarrow> string) \<Rightarrow> cell list \<Rightarrow> nat option" where
  "str_len_max fmt cs =
     (if cs = [] then None else Some (Max (set (map (\<lambda>c. length (astype_str fmt c)) cs))))"

text \<open>
  The column definition of \<open>load_csv_to_mysql\<close>. \<open>int(max_len)\<close> raises
  \<open>ValueError\<close> on \<open>NaN\<close>.
\<close>

definition load_csv_col_type :: "(cell \<Rightarrow> string) \<Rightarrow> column \<Rightarrow> error + sql_type" where
  "load_csv_col_type fmt col =
     (if dtype col = Object then
        (case str_len_max fmt (cells col) of
           None \<Rightarrow> Inl ValueError
         | Some max_len \<Rightarrow> Inr (VARCHAR (min (max (max_len + 100) 255) 65535)))
      else if dtype col = Int64 then Inr BIGINT
      else if dtype col = Float64 then Inr DOUBLE
      else if dtype col = BoolT then Inr BOOLEAN
      else Inr TEXT)"

text \<open>
  The column definition of \<open>migrate_to_mysql\<close>. With \<open>max_len = NaN\<close> Python's
  \<open>max\<close> and \<open>min\<close> return the \<open>NaN\<close> and the definition reads \<open>VARCHAR(nan)\<close>.
\<close>

definition migrate_col_type :: "(cell \<Rightarrow> string) \<Rightarrow> column \<Rightarrow> sql_type" where
  "migrate_col_type fmt col =
     (if dtype col = Object then
        (case str_len_max fmt (cells col) of
           None \<Rightarrow> VARCHAR_nan
         | Some max_len \<Rightarrow> VARCHAR (min (max (max_len + 10) 50) 500))
      else if dtype col = Int64 then BIGINT
      else if dtype col = Float64 then DOUBLE
      else if dtype col = BoolT then BOOLEAN
      else TEXT)"

text \<open>
  \<open>infer_mysql_type(dtype, max_len=None)\<close>: \<open>if max_len\<close> is false for \<open>None\<close>
  and for \<open>0\<close>.
\<close>

definition infer_mysql_type :: "dtype \<Rightarrow> nat option \<Rightarrow> sql_type" where
  "infer_mysql_type d max_len =
     (if d = Object then
        VARCHAR (case max_len of
                   None \<Rightarrow> 255
                 | Some n \<Rightarrow> if n \<noteq> 0 then min (max (n + 10) 50) 500 else 255)
      else if d = Int64 then BIGINT
      else if d = Float64 then DOUBLE
      else if d = BoolT then BOOLEAN
      else TEXT)"

section \<open>Sink writers: batched inserts\<close>

text \<open>
  A connection, as far as one table goes: the rows stored by committed transactions and
  the rows inserted in the open transaction. \<open>cursor.execute\<close> of an insert raises
  the connector's \<open>Error\<close> when the server rejects the row (\<open>rejects\<close>), and
  \<open>cursor.execute\<close> of \<open>CREATE TABLE\<close> raises it when the server rejects the column
  definitions (\<open>accepts\<close> is false, or a definition reads \<open>VARCHAR(nan)\<close>).
\<close>

record 'r conn =
  stored :: "'r list"
  pending :: "'r list"

definition commit :: "'r conn \<Rightarrow> 'r conn" where
  "commit c = c\<lparr>stored := stored c @ pending c, pending := []\<rparr>"

definition rollback :: "'r conn \<Rightarrow> 'r conn" where
  "rollback c = c\<lparr>pending := []\<rparr>"

text \<open>The inner loop \<open>for _, row in batch.iterrows(): cursor.execute(...)\<close>.\<close>

fun execute_rows :: "('r \<Rightarrow> bool) \<Rightarrow> 'r list \<Rightarrow> 'r conn \<Rightarrow> 'r conn \<times> error option" where
  "execute_rows rejects [] c = (c, None)"
| "execute_rows rejects (r # rs) c =
     (if rejects r then (c, Some MySQLError)
      else execute_rows rejects rs (c\<lparr>pending := pending c @ [r]\<rparr>))"

definition batch_size :: nat where
  "batch_size = 1000"

text \<open>
  The outer loop \<open>for i in range(0, len(df), batch_size)\<close> with
  \<open>batch = df.iloc[i:i+batch_size]\<close> and \<open>conn.commit()\<close> after each batch.
\<close>

function insert_batches ::
  "('r \<Rightarrow> bool) \<Rightarrow> 'r list \<Rightarrow> nat \<Rightarrow> 'r conn \<Rightarrow> 'r conn \<times> error option" where
  "insert_batches rejects df i c =
     (if i < length df then
        (case execute_rows rejects (take batch_size (drop i df)) c of
           (c', Some e) \<Rightarrow> (c', Some e)
         | (c', None) \<Rightarrow> insert_batches rejects df (i + batch_size) (commit c'))
      else (c, None))"
  by pat_completeness auto
termination
  by (relation "measure (\<lambda>(rejects, df, i, c). length df - i)") (auto simp: batch_size_def)

declare insert_batches.simps [simp del]

text \<open>
  \<open>DROP TABLE IF EXISTS\<close> and the commit after it: the table is gone and no insert is
  pending.
\<close>

definition drop_table :: "'r conn \<Rightarrow> 'r conn" where
  "drop_table c = c\<lparr>stored := [], pending := []\<rparr>"

text \<open>
  The rows of the table in order, as \<open>iterrows\<close> yields them, and the tuple passed to
  \<open>cursor.execute\<close> for each: \<open>tuple_of\<close> stands for the values pandas puts into the
  row and for \<open>None if pd.isna(v) else v\<close> in \<open>load_csv_to_mysql\<close>, respectively
  \<open>tuple(row)\<close> in \<open>migrate_to_mysql\<close>.
\<close>

definition rows_of :: "table \<Rightarrow> cell list list" where
  "rows_of df = transpose (map (\<lambda>(n, c). cells c) df)"

text \<open>
  The loop that builds \<open>col_defs\<close> in \<open>load_csv_to_mysql\<close>: the first column whose
  definition raises ends it.
\<close>

fun load_csv_col_defs ::
  "(cell \<Rightarrow> string) \<Rightarrow> table \<Rightarrow> error + (string \<times> sql_type) list" where
  "load_csv_col_defs fmt [] = Inr []"
| "load_csv_col_defs fmt ((col, c) # rest) =
     (case load_csv_col_type fmt c of
        Inl e \<Rightarrow> Inl e
      | Inr t \<Rightarrow>
          (case load_csv_col_defs fmt rest of
             Inl e \<Rightarrow> Inl e
           | Inr defs \<Rightarrow> Inr ((col, t) # defs)))"

definition migrate_col_defs :: "(cell \<Rightarrow> string) \<Rightarrow> table \<Rightarrow> (string \<times> sql_type) list" where
  "migrate_col_defs fmt df = map (\<lambda>(col, c). (col, migrate_col_type fmt c)) df"

definition create_fails :: "((string \<times> sql_type) list \<Rightarrow> bool) \<Rightarrow> (string \<times> sql_type) list \<Rightarrow> bool" where
  "create_fails accepts defs \<longleftrightarrow> VARCHAR_nan \<in> set (map snd defs) \<or> \<not> accepts defs"

text \<open>
  \<open>load_csv_to_mysql\<close>. The \<open>ValueError\<close> of a column definition is no connector
  \<open>Error\<close>: it leaves the function past the handler, after the table was dropped. An
  \<open>Error\<close> of \<open>CREATE TABLE\<close> or of an insert is handled: rollback, then raised again.
\<close>

definition load_csv_to_mysql ::
  "(cell \<Rightarrow> string) \<Rightarrow> ((string \<times> sql_type) list \<Rightarrow> bool) \<Rightarrow> (cell list \<Rightarrow> 'r) \<Rightarrow>
   ('r \<Rightarrow> bool) \<Rightarrow> table \<Rightarrow> 'r conn \<Rightarrow> 'r conn \<times> (error + unit)" where
  "load_csv_to_mysql fmt accepts tuple_of rejects df c =
     (let c1 = drop_table c
      in case load_csv_col_defs fmt df of
           Inl e \<Rightarrow> (c1, Inl e)
         | Inr defs \<Rightarrow>
             if create_fails accepts defs then (rollback c1, Inl MySQLError)
             else (case insert_batches rejects (map tuple_of (rows_of df)) 0 (commit c1) of
                     (c', Some e) \<Rightarrow> (rollback c', Inl e)
                   | (c', None) \<Rightarrow> (c', Inr ())))"

text \<open>
  \<open>migrate_to_mysql\<close>: no column definition raises in Python; the definition
  \<open>VARCHAR(nan)\<close> of an object column without rows is rejected by the server.
\<close>

definition migrate_to_mysql ::
  "(cell \<Rightarrow> string) \<Rightarrow> ((string \<times> sql_type) list \<Rightarrow> bool) \<Rightarrow> (cell list \<Rightarrow> 'r) \<Rightarrow>
   ('r \<Rightarrow> bool) \<Rightarrow> table \<Rightarrow> 'r conn \<Rightarrow> 'r conn \<times> (error + unit)" where
  "migrate_to_mysql fmt accepts tuple_of rejects df c =
     (let c1 = drop_table c
      in if create_fails accepts (migrate_col_defs fmt df) then (rollback c1, Inl MySQLError)
         else (case insert_batches rejects (map tuple_of (rows_of df)) 0 (commit c1) of
                 (c', Some e) \<Rightarrow> (rollback c', Inl e)
               | (c', None) \<Rightarrow> (c', Inr ())))"

text \<open>The number of rows the server accepts before the first one it rejects.\<close>

definition accepted :: "('r \<Rightarrow> bool) \<Rightarrow> 'r list \<Rightarrow> nat" where
  "accepted rejects rows = length (takeWhile (\<lambda>r. \<not> rejects r) rows)"

text \<open>
  Tables for the examples: one int64 column of 1001 rows, the last cell standing out;
  a table of three rows; a table without rows that has a text column.
\<close>

definition thousand_and_one :: table where
  "thousand_and_one =
     [(''popularity'', \<lparr>dtype = Int64, cells = replicate 1000 (PyInt 0) @ [PyInt 2]\<rparr>)]"

definition three_rows :: table where
  "three_rows = [(''popularity'', \<lparr>dtype = Int64, cells = [PyInt 0, PyInt 0, PyInt 0]\<rparr>)]"

definition no_rows :: table where
  "no_rows = [(''track_name'', \<lparr>dtype = Object, cells = []\<rparr>)]"

section \<open>Migration: reading the source table (migrate\_sqlite\_to\_mysql.py)\<close>

text \<open>
  \<open>str.replace(old, new)\<close> for a non-empty \<open>old\<close>: every occurrence, scanning from
  the left, occurrences not overlapping.
\<close>

function str_replace :: "string \<Rightarrow> string \<Rightarrow> string \<Rightarrow> string" where
  "str_replace old new s =
     (if s = [] \<or> old = [] then s
      else if prefix old s then new @ str_replace old new (drop (length old) s)
      else hd s # str_replace old new (tl s))"
  by pat_completeness auto
termination
  by (relation "measure (\<lambda>(old, new, s). length s)") auto

declare str_replace.simps [simp del]

text \<open>
  What the function reads: \<open>pd.read_csv\<close> of a path gives a table or raises; a SQLite
  database (\<open>sqlite3.connect\<close> opens any path, creating an empty database) maps the
  names of its tables to their content, and \<open>pd.read_sql\<close> of a missing table raises.
\<close>

record 't files =
  read_csv :: "string \<Rightarrow> error + 't"
  sqlite_tables :: "string \<Rightarrow> string \<rightharpoonup> 't"

definition read_sql :: "'t files \<Rightarrow> string \<Rightarrow> string \<Rightarrow> error + 't" where
  "read_sql env db_path table_name =
     (case sqlite_tables env db_path table_name of
        None \<Rightarrow> Inl DatabaseError
      | Some df \<Rightarrow> Inr df)"

text \<open>
  \<open>read_sqlite\<close>: the first assignment to \<open>df\<close> reads the CSV beside the database;
  an exception of either read is logged and raised again.
\<close>

definition read_sqlite :: "'t files \<Rightarrow> string \<Rightarrow> string \<Rightarrow> error + 't" where
  "read_sqlite env db_path table_name =
     (case read_csv env (str_replace ''.db'' ''.csv'' db_path) of
        Inl e \<Rightarrow> Inl e
      | Inr df \<Rightarrow> read_sql env db_path table_name)"

text \<open>
  The reading of the specification: a direct read of the SQLite table, the CSV read
  having no effect.
\<close>

definition read_sqlite_direct :: "'t files \<Rightarrow> string \<Rightarrow> string \<Rightarrow> error + 't" where
  "read_sqlite_direct env db_path table_name = read_sql env db_path table_name"

text \<open>
  A database file with a \<open>tracks\<close> table of two rows; the only CSV file is
  \<open>spotify_clean.csv\<close>, so there is none named after the database.
\<close>

definition db_without_csv :: "nat list files" where
  "db_without_csv =
     \<lparr>read_csv = (\<lambda>path. if path = ''spotify_clean.csv''
                          then Inr [1, 2] else Inl FileNotFoundError),
      sqlite_tables = (\<lambda>path. if path = ''spotify_tracks.db''
                               then [''tracks'' \<mapsto> [1, 2]] else Map.empty)\<rparr>"

section \<open>Dashboard filter (app.py)\<close>

text \<open>
  The loaded table, row by row. The filter reads three columns; the others stay in the
  extension of the record. \<open>load_full_dataframe\<close> has coerced \<open>popularity\<close> with
  \<open>pd.to_numeric(errors='coerce')\<close>, so its cells are numbers or \<open>NaN\<close> (\<open>None\<close>).
\<close>

record track =
  track_genre :: cell
  artists :: cell
  popularity :: "rat option"

text \<open>
  \<open>Series.str.contains(pat, case=False, na=False)\<close>: the case-insensitive regular
  expression search is the parameter \<open>search\<close>; a cell that is not a string gives the
  \<open>na\<close> value.
\<close>

fun str_contains :: "(string \<Rightarrow> string \<Rightarrow> bool) \<Rightarrow> string \<Rightarrow> cell \<Rightarrow> bool" where
  "str_contains search pat (PyStr s) = search pat s"
| "str_contains search pat c = False"

text \<open>\<open>popularity >= lo\<close> and \<open>popularity <= hi\<close>: a comparison with \<open>NaN\<close> is false.\<close>

fun pop_ge :: "rat option \<Rightarrow> int \<Rightarrow> bool" where
  "pop_ge None lo = False"
| "pop_ge (Some p) lo = (of_int lo \<le> p)"

fun pop_le :: "rat option \<Rightarrow> int \<Rightarrow> bool" where
  "pop_le None hi = False"
| "pop_le (Some p) hi = (p \<le> of_int hi)"

text \<open>Lines 119 to 124 of app.py; a boolean mask keeps the rows where it is true.\<close>

definition df_filtered ::
  "(string \<Rightarrow> string \<Rightarrow> bool) \<Rightarrow> string \<Rightarrow> string \<Rightarrow> int \<times> int \<Rightarrow>
   'a track_scheme list \<Rightarrow> 'a track_scheme list" where
  "df_filtered search selected_genre artist_search pop_range df_all =
     (let df1 = (if selected_genre \<noteq> ''All''
                 then filter (\<lambda>r. track_genre r = PyStr selected_genre) df_all
                 else df_all);
          df2 = (if artist_search \<noteq> []
                 then filter (\<lambda>r. str_contains search artist_search (artists r)) df1
                 else df1)
      in filter (\<lambda>r. pop_ge (popularity r) (fst pop_range) \<and>
                      pop_le (popularity r) (snd pop_range)) df2)"

text \<open>Rows for the examples: genre and popularity, the artist fixed.\<close>

definition mk_track :: "string \<Rightarrow> rat \<Rightarrow> track" where
  "mk_track g p = \<lparr>track_genre = PyStr g, artists = PyStr ''A'', popularity = Some p\<rparr>"

section \<open>Sink writers: column types, properties\<close>

lemma str_len_max_ge:
  assumes "str_len_max fmt cs = Some m" and "c \<in> set cs"
  shows "length (astype_str fmt c) \<le> m"
proof -
  from assms(1) have m: "m = Max (set (map (\<lambda>c. length (astype_str fmt c)) cs))"
    by (simp add: str_len_max_def split: if_splits)
  have "length (astype_str fmt c) \<in> set (map (\<lambda>c. length (astype_str fmt c)) cs)"
    using assms(2) by simp
  then show ?thesis unfolding m by (intro Max_ge) simp_all
qed

lemma str_len_max_replicate:
  "str_len_max fmt [PyStr (replicate n x)] = Some n"
  by (simp add: str_len_max_def)

text \<open>
  C8, as stated, for the migration script: an object column becomes a VARCHAR at least as
  long as its longest string. It fails for a column holding one string of 501
  characters, which is declared \<open>VARCHAR(500)\<close>.
\<close>

theorem C8_varchar_length_counterexample:
  "\<not> (\<forall>col. dtype col = Object \<longrightarrow>
        (\<exists>n. migrate_col_type (\<lambda>x. []) col = VARCHAR n \<and>
             (\<forall>c \<in> set (cells col). length (astype_str (\<lambda>x. []) c) \<le> n)))"
proof
  let ?col = "\<lparr>dtype = Object, cells = [PyStr (replicate 501 CHR ''a'')]\<rparr>"
  assume "\<forall>col. dtype col = Object \<longrightarrow>
        (\<exists>n. migrate_col_type (\<lambda>x. []) col = VARCHAR n \<and>
             (\<forall>c \<in> set (cells col). length (astype_str (\<lambda>x. []) c) \<le> n))"
  from this [rule_format, of ?col]
  have "\<exists>n. migrate_col_type (\<lambda>x. []) ?col = VARCHAR n \<and>
             (\<forall>c \<in> set (cells ?col). length (astype_str (\<lambda>x. []) c) \<le> n)"
    by simp
  then show False
    by (simp add: migrate_col_type_def str_len_max_replicate)
qed

text \<open>
  C8, amended. Both loaders map int64 to BIGINT, float64 to DOUBLE, bool to BOOLEAN and
  every dtype other than these and object to TEXT. An object column with at least one
  row and longest printed cell \<open>L\<close> becomes \<open>VARCHAR(min(max(L+100,255),65535))\<close> in
  \<open>load_csv_to_mysql\<close> and \<open>VARCHAR(min(max(L+10,50),500))\<close> in \<open>migrate_to_mysql\<close>;
  the declared length covers every cell of the column when \<open>L\<close> is at most 65535,
  respectively 500. The helper \<open>infer_mysql_type\<close> agrees with \<open>migrate_to_mysql\<close>
  on the dtypes other than object and on an object column of longest cell \<open>L > 0\<close>.
\<close>

theorem C8_column_types:
  "(dtype col = Int64 \<longrightarrow>
      load_csv_col_type fmt col = Inr BIGINT \<and> migrate_col_type fmt col = BIGINT) \<and>
   (dtype col = Float64 \<longrightarrow>
      load_csv_col_type fmt col = Inr DOUBLE \<and> migrate_col_type fmt col = DOUBLE) \<and>
   (dtype col = BoolT \<longrightarrow>
      load_csv_col_type fmt col = Inr BOOLEAN \<and> migrate_col_type fmt col = BOOLEAN) \<and>
   (dtype col = Other s \<longrightarrow>
      load_csv_col_type fmt col = Inr TEXT \<and> migrate_col_type fmt col = TEXT) \<and>
   (dtype col = Object \<and> str_len_max fmt (cells col) = Some L \<longrightarrow>
      load_csv_col_type fmt col = Inr (VARCHAR (min (max (L + 100) 255) 65535)) \<and>
      migrate_col_type fmt col = VARCHAR (min (max (L + 10) 50) 500) \<and>
      (L \<le> 65535 \<longrightarrow>
         (\<forall>c \<in> set (cells col).
            length (astype_str fmt c) \<le> min (max (L + 100) 255) 65535)) \<and>
      (L \<le> 500 \<longrightarrow>
         (\<forall>c \<in> set (cells col).
            length (astype_str fmt c) \<le> min (max (L + 10) 50) 500))) \<and>
   (dtype col \<noteq> Object \<or> (str_len_max fmt (cells col) = Some L \<and> L \<noteq> 0) \<longrightarrow>
      infer_mysql_type (dtype col) (str_len_max fmt (cells col)) = migrate_col_type fmt col)"
proof -
  have obj: "\<forall>c \<in> set (cells col). length (astype_str fmt c) \<le> L"
    if "str_len_max fmt (cells col) = Some L"
    using str_len_max_ge [OF that] by blast
  have le: "n \<le> min (max (L + 100) 255) 65535" if "n \<le> L" "L \<le> 65535" for n
    using that by simp
  have le': "n \<le> min (max (L + 10) 50) 500" if "n \<le> L" "L \<le> 500" for n
    using that by simp
  have types: "(dtype col = Int64 \<longrightarrow>
      load_csv_col_type fmt col = Inr BIGINT \<and> migrate_col_type fmt col = BIGINT) \<and>
   (dtype col = Float64 \<longrightarrow>
      load_csv_col_type fmt col = Inr DOUBLE \<and> migrate_col_type fmt col = DOUBLE) \<and>
   (dtype col = BoolT \<longrightarrow>
      load_csv_col_type fmt col = Inr BOOLEAN \<and> migrate_col_type fmt col = BOOLEAN) \<and>
   (dtype col = Other s \<longrightarrow>
      load_csv_col_type fmt col = Inr TEXT \<and> migrate_col_type fmt col = TEXT) \<and>
   (dtype col = Object \<and> str_len_max fmt (cells col) = Some L \<longrightarrow>
      load_csv_col_type fmt col = Inr (VARCHAR (min (max (L + 100) 255) 65535)) \<and>
      migrate_col_type fmt col = VARCHAR (min (max (L + 10) 50) 500) \<and>
      (L \<le> 65535 \<longrightarrow>
         (\<forall>c \<in> set (cells col).
            length (astype_str fmt c) \<le> min (max (L + 100) 255) 65535)) \<and>
      (L \<le> 500 \<longrightarrow>
         (\<forall>c \<in> set (cells col).
            length (astype_str fmt c) \<le> min (max (L + 10) 50) 500)))"
    using obj le le' by (fastforce simp: load_csv_col_type_def migrate_col_type_def)
  have helper: "dtype col \<noteq> Object \<or> (str_len_max fmt (cells col) = Some L \<and> L \<noteq> 0) \<longrightarrow>
      infer_mysql_type (dtype col) (str_len_max fmt (cells col)) = migrate_col_type fmt col"
    by (auto simp: infer_mysql_type_def migrate_col_type_def)
  from types helper show ?thesis
    by (intro conjI) blast+
qed

text \<open>
  Instances: a text column whose longest cell has 5 characters, and one column of each
  other dtype.
\<close>

theorem C8_column_types_witness:
  "str_len_max (\<lambda>x. ''0'') [PyStr ''indie'', Null, PyStr ''pop''] = Some 5 \<and>
   load_csv_col_type (\<lambda>x. ''0'') \<lparr>dtype = Object, cells = [PyStr ''indie'', Null, PyStr ''pop'']\<rparr>
     = Inr (VARCHAR 255) \<and>
   migrate_col_type (\<lambda>x. ''0'') \<lparr>dtype = Object, cells = [PyStr ''indie'', Null, PyStr ''pop'']\<rparr>
     = VARCHAR 50 \<and>
   migrate_col_type (\<lambda>x. ''0'') \<lparr>dtype = Int64, cells = [PyInt 3]\<rparr> = BIGINT \<and>
   load_csv_col_type (\<lambda>x. ''0'') \<lparr>dtype = Float64, cells = [PyFloat 3, Null]\<rparr> = Inr DOUBLE \<and>
   migrate_col_type (\<lambda>x. ''0'') \<lparr>dtype = BoolT, cells = [PyBool True]\<rparr> = BOOLEAN \<and>
   load_csv_col_type (\<lambda>x. ''0'') \<lparr>dtype = Other ''category'', cells = []\<rparr> = Inr TEXT \<and>
   infer_mysql_type Object (Some 5) = VARCHAR 50"
proof -
  let ?f = "\<lambda>x::cell. ''0''"
  have L: "str_len_max ?f [PyStr ''indie'', Null, PyStr ''pop''] = Some 5"
    by (simp add: str_len_max_def)
  show ?thesis
    using L
      C8_column_types [of "\<lparr>dtype = Object, cells = [PyStr ''indie'', Null, PyStr ''pop'']\<rparr>" ?f _ 5]
      C8_column_types [of "\<lparr>dtype = Int64, cells = [PyInt 3]\<rparr>" ?f]
      C8_column_types [of "\<lparr>dtype = Float64, cells = [PyFloat 3, Null]\<rparr>" ?f]
      C8_column_types [of "\<lparr>dtype = BoolT, cells = [PyBool True]\<rparr>" ?f]
      C8_column_types [of "\<lparr>dtype = Other ''category'', cells = []\<rparr>" ?f "''category''"]
    by simp
qed

section \<open>Sink writers: batched inserts, properties\<close>
lemma execute_rows_result:
  "execute_rows rejects rows c =
     (c\<lparr>pending := pending c @ takeWhile (\<lambda>r. \<not> rejects r) rows\<rparr>,
      if \<exists>r \<in> set rows. rejects r then Some MySQLError else None)"
  by (induction rows arbitrary: c) auto

lemma accepted_all: "accepted rejects rows = length rows \<longleftrightarrow> (\<forall>r \<in> set rows. \<not> rejects r)"
  unfolding accepted_def by (induction rows) auto

lemma accepted_append:
  "\<forall>r \<in> set xs. \<not> rejects r \<Longrightarrow> accepted rejects (xs @ ys) = length xs + accepted rejects ys"
  unfolding accepted_def by (induction xs) auto

lemma accepted_take_reject:
  "\<exists>r \<in> set (take n rows). rejects r \<Longrightarrow> accepted rejects rows < n"
proof (induction rows arbitrary: n)
  case Nil
  then show ?case by simp
next
  case (Cons r rows)
  then show ?case by (cases n) (auto simp: accepted_def)
qed

lemma insert_batches_result:
  assumes "pending c = []"
  shows "(accepted rejects (drop i df) = length (drop i df) \<longrightarrow>
            insert_batches rejects df i c = (c\<lparr>stored := stored c @ drop i df\<rparr>, None)) \<and>
         (accepted rejects (drop i df) \<noteq> length (drop i df) \<longrightarrow>
            snd (insert_batches rejects df i c) = Some MySQLError \<and>
            stored (fst (insert_batches rejects df i c)) =
              stored c @
              take (batch_size * (accepted rejects (drop i df) div batch_size)) (drop i df))"
  using assms
proof (induction rejects df i c rule: insert_batches.induct)
  case (1 rejects df i c)
  let ?rest = "drop i df"
  let ?batch = "take batch_size ?rest"
  show ?case
  proof (cases "i < length df")
    case False
    then show ?thesis
      by (simp add: insert_batches.simps [of rejects df i c] accepted_def)
  next
    case inside: True
    show ?thesis
    proof (cases "\<exists>r \<in> set ?batch. rejects r")
      case True
      then have k: "accepted rejects ?rest < batch_size"
        by (rule accepted_take_reject)
      from True have "\<exists>r \<in> set ?rest. rejects r"
        by (meson in_set_takeD)
      then have ne: "accepted rejects ?rest \<noteq> length ?rest"
        using accepted_all [of rejects ?rest] by blast
      have "execute_rows rejects ?batch c =
          (c\<lparr>pending := pending c @ takeWhile (\<lambda>r. \<not> rejects r) ?batch\<rparr>, Some MySQLError)"
        unfolding execute_rows_result using True by simp
      then have "insert_batches rejects df i c =
          (c\<lparr>pending := pending c @ takeWhile (\<lambda>r. \<not> rejects r) ?batch\<rparr>, Some MySQLError)"
        using inside by (simp add: insert_batches.simps [of rejects df i c])
      then show ?thesis
        using k ne by simp
    next
      case False
      then have ok: "\<forall>r \<in> set ?batch. \<not> rejects r" by simp
      then have tw: "takeWhile (\<lambda>r. \<not> rejects r) ?batch = ?batch"
        by (simp add: takeWhile_eq_all_conv)
      let ?c' = "commit (c\<lparr>pending := pending c @ ?batch\<rparr>)"
      have ex: "execute_rows rejects ?batch c = (c\<lparr>pending := pending c @ ?batch\<rparr>, None)"
        unfolding execute_rows_result tw using ok by simp
      have step: "insert_batches rejects df i c = insert_batches rejects df (i + batch_size) ?c'"
        using inside by (simp add: insert_batches.simps [of rejects df i c] ex)
      have c': "pending ?c' = []" "stored ?c' = stored c @ ?batch"
        using "1.prems" by (simp_all add: commit_def)
      let ?rest' = "drop batch_size ?rest"
      have rest': "drop (i + batch_size) df = ?rest'"
        by (simp add: add.commute)
      note IH = "1.IH" [OF inside ex [symmetric] refl c'(1), unfolded rest' c'(2), folded step]
      have split: "?rest = ?batch @ ?rest'"
        by (rule append_take_drop_id [symmetric])
      have k: "accepted rejects ?rest = length ?batch + accepted rejects ?rest'"
        using accepted_append [OF ok, of ?rest'] split by simp
      have len_split: "length ?rest = length ?batch + length ?rest'"
        using arg_cong [OF split, of length] by (simp only: length_append)
      show ?thesis
      proof (cases "accepted rejects ?rest' = length ?rest'")
        case True
        then have all: "accepted rejects ?rest = length ?rest"
          using k len_split by simp
        have "?c'\<lparr>stored := (stored c @ ?batch) @ ?rest'\<rparr> = c\<lparr>stored := stored c @ ?rest\<rparr>"
          using "1.prems" by (simp add: commit_def del: drop_drop)
        moreover from IH True
        have "insert_batches rejects df i c = (?c'\<lparr>stored := (stored c @ ?batch) @ ?rest'\<rparr>, None)"
          by blast
        ultimately have "insert_batches rejects df i c = (c\<lparr>stored := stored c @ ?rest\<rparr>, None)"
          by (simp only:)
        with all show ?thesis by blast
      next
        case False
        then have "?rest' \<noteq> []"
          by (auto simp: accepted_def simp del: drop_drop)
        then have len: "length ?batch = batch_size"
          by simp
        have ne: "accepted rejects ?rest \<noteq> length ?rest"
          using False k len_split by simp
        have bs: "0 < batch_size" by (simp add: batch_size_def)
        have dv: "accepted rejects ?rest div batch_size = Suc (accepted rejects ?rest' div batch_size)"
          using k len bs by simp
        have tk: "take (batch_size * Suc n) ?rest = ?batch @ take (batch_size * n) ?rest'" for n
          by (simp add: take_add del: drop_drop)
        from IH False
        have r: "snd (insert_batches rejects df i c) = Some MySQLError"
          "stored (fst (insert_batches rejects df i c)) =
             (stored c @ ?batch) @
             take (batch_size * (accepted rejects ?rest' div batch_size)) ?rest'"
          by blast+
        have "stored (fst (insert_batches rejects df i c)) =
             stored c @ take (batch_size * (accepted rejects ?rest div batch_size)) ?rest"
          unfolding r(2) dv tk by (simp only: append_assoc)
        with r(1) ne show ?thesis by blast
      qed
    qed
  qed
qed

lemma rows_of_single: "rows_of [(n, c)] = map (\<lambda>x. [x]) (cells c)"
proof -
  have "transpose [xs] = map (\<lambda>x. [x]) xs" for xs :: "cell list"
    by (induction xs) simp_all
  then show ?thesis by (simp add: rows_of_def)
qed

lemma load_csv_col_defs_error:
  "load_csv_col_defs fmt df = Inl e \<Longrightarrow> e = ValueError"
  by (induction df arbitrary: e)
    (auto simp: load_csv_col_type_def split: sum.splits option.splits if_splits)

lemma load_csv_col_defs_fails:
  "(\<exists>e. load_csv_col_defs fmt df = Inl e) \<longleftrightarrow>
     (\<exists>c \<in> set (map snd df). dtype c = Object \<and> cells c = [])"
  by (induction df)
    (auto simp: load_csv_col_type_def str_len_max_def split: sum.splits option.splits if_splits)

lemma migrate_col_defs_nan:
  "VARCHAR_nan \<in> set (map snd (migrate_col_defs fmt df)) \<longleftrightarrow>
     (\<exists>c \<in> set (map snd df). dtype c = Object \<and> cells c = [])"
  by (induction df)
    (auto simp: migrate_col_defs_def migrate_col_type_def str_len_max_def
      split: option.splits if_splits)

lemma insert_phase:
  fixes rejects :: "'r \<Rightarrow> bool" and c :: "'r conn" and rows :: "'r list"
  defines "R \<equiv> (case insert_batches rejects rows 0 (commit (drop_table c)) of
                   (c', Some e) \<Rightarrow> (rollback c', Inl e)
                 | (c', None) \<Rightarrow> (c', Inr ()))"
  shows "(accepted rejects rows = length rows \<longrightarrow>
            R = (c\<lparr>stored := rows, pending := []\<rparr>, Inr ())) \<and>
         (accepted rejects rows \<noteq> length rows \<longrightarrow>
            snd R = Inl MySQLError \<and> pending (fst R) = [] \<and>
            stored (fst R) =
              take (batch_size * (accepted rejects rows div batch_size)) rows)"
proof -
  let ?c0 = "commit (drop_table c)"
  let ?I = "insert_batches rejects rows 0 ?c0"
  have p: "pending ?c0 = []" and s: "stored ?c0 = []"
    by (simp_all add: drop_table_def commit_def)
  note res = insert_batches_result [OF p, of rejects 0 rows, unfolded s drop_0 append_Nil]
  have full: "R = (c\<lparr>stored := rows, pending := []\<rparr>, Inr ())"
    if "accepted rejects rows = length rows"
  proof -
    from res that have "?I = (?c0\<lparr>stored := rows\<rparr>, None)"
      by simp
    then show ?thesis
      by (simp add: R_def drop_table_def commit_def)
  qed
  have part: "snd R = Inl MySQLError \<and> pending (fst R) = [] \<and>
      stored (fst R) = take (batch_size * (accepted rejects rows div batch_size)) rows"
    if "accepted rejects rows \<noteq> length rows"
  proof -
    from res that have r: "snd ?I = Some MySQLError"
      "stored (fst ?I) = take (batch_size * (accepted rejects rows div batch_size)) rows"
      by simp_all
    obtain c' where I: "?I = (c', Some MySQLError)"
      using r(1) by (cases ?I) simp
    with r(2) have "stored c' = take (batch_size * (accepted rejects rows div batch_size)) rows"
      by simp
    with I show ?thesis
      by (simp add: R_def rollback_def)
  qed
  from full part show ?thesis by blast
qed

text \<open>
  C6. Both loaders drop the table, build the column definitions and create the table;
  \<open>load_csv_to_mysql\<close> raises \<open>ValueError\<close> and \<open>migrate_to_mysql\<close> the connector's
  error when an object column has no rows, and both raise the connector's error when the
  server rejects the definitions; the table is then gone and no row is inserted. Once
  the table is created, both insert in batches of 1000 rows and commit after each batch.
  When the server accepts every row the table holds the whole input. When the first
  rejected row has index \<open>k\<close>, the loader raises the error, the open batch is rolled
  back and the table holds exactly the \<open>1000 * (k div 1000)\<close> rows of the batches
  committed before: the load is not atomic.
\<close>

theorem C6_batches_commit_rollback:
  fixes rejects :: "'r \<Rightarrow> bool" and tuple_of :: "cell list \<Rightarrow> 'r" and c :: "'r conn"
    and df :: table and fmt :: "cell \<Rightarrow> string"
    and accepts :: "(string \<times> sql_type) list \<Rightarrow> bool"
  defines "rows \<equiv> map tuple_of (rows_of df)"
    and "k \<equiv> accepted rejects (map tuple_of (rows_of df))"
    and "csv \<equiv> load_csv_to_mysql fmt accepts tuple_of rejects df c"
    and "mig \<equiv> migrate_to_mysql fmt accepts tuple_of rejects df c"
  shows "batch_size = 1000 \<and>
     ((\<exists>col \<in> set (map snd df). dtype col = Object \<and> cells col = []) \<longrightarrow>
        csv = (drop_table c, Inl ValueError) \<and> mig = (drop_table c, Inl MySQLError)) \<and>
     (\<forall>defs. load_csv_col_defs fmt df = Inr defs \<and> create_fails accepts defs \<longrightarrow>
        csv = (drop_table c, Inl MySQLError)) \<and>
     (create_fails accepts (migrate_col_defs fmt df) \<longrightarrow>
        mig = (drop_table c, Inl MySQLError)) \<and>
     (\<forall>load.
        load = csv \<and> (\<exists>defs. load_csv_col_defs fmt df = Inr defs \<and> \<not> create_fails accepts defs) \<or>
        load = mig \<and> \<not> create_fails accepts (migrate_col_defs fmt df) \<longrightarrow>
        (k = length rows \<longrightarrow> load = (c\<lparr>stored := rows, pending := []\<rparr>, Inr ())) \<and>
        (k \<noteq> length rows \<longrightarrow>
           snd load = Inl MySQLError \<and> pending (fst load) = [] \<and>
           stored (fst load) = take (batch_size * (k div batch_size)) rows))"
proof -
  have rb: "rollback (drop_table c) = drop_table c"
    by (simp add: rollback_def drop_table_def)
  have empty: "csv = (drop_table c, Inl ValueError) \<and> mig = (drop_table c, Inl MySQLError)"
    if h: "\<exists>col \<in> set (map snd df). dtype col = Object \<and> cells col = []"
  proof -
    from h load_csv_col_defs_fails [of fmt df] obtain e where "load_csv_col_defs fmt df = Inl e"
      by blast
    with load_csv_col_defs_error [OF this] have "load_csv_col_defs fmt df = Inl ValueError"
      by simp
    moreover from h have "create_fails accepts (migrate_col_defs fmt df)"
      by (simp only: create_fails_def migrate_col_defs_nan) blast
    ultimately show ?thesis
      by (simp add: csv_def mig_def load_csv_to_mysql_def migrate_to_mysql_def rb)
  qed
  have csv_create: "csv = (drop_table c, Inl MySQLError)"
    if "load_csv_col_defs fmt df = Inr defs" "create_fails accepts defs" for defs
    using that by (simp add: csv_def load_csv_to_mysql_def rb)
  have mig_create: "mig = (drop_table c, Inl MySQLError)"
    if "create_fails accepts (migrate_col_defs fmt df)"
    using that by (simp add: mig_def migrate_to_mysql_def rb)
  have csv_ins: "csv = (case insert_batches rejects rows 0 (commit (drop_table c)) of
                   (c', Some e) \<Rightarrow> (rollback c', Inl e)
                 | (c', None) \<Rightarrow> (c', Inr ()))"
    if "load_csv_col_defs fmt df = Inr defs" "\<not> create_fails accepts defs" for defs
    using that by (simp add: csv_def rows_def load_csv_to_mysql_def)
  have mig_ins: "mig = (case insert_batches rejects rows 0 (commit (drop_table c)) of
                   (c', Some e) \<Rightarrow> (rollback c', Inl e)
                 | (c', None) \<Rightarrow> (c', Inr ()))"
    if "\<not> create_fails accepts (migrate_col_defs fmt df)"
    using that by (simp add: mig_def rows_def migrate_to_mysql_def)
  note phase = insert_phase [of rejects rows c, folded k_def [folded rows_def]]
  have ins: "(k = length rows \<longrightarrow> load = (c\<lparr>stored := rows, pending := []\<rparr>, Inr ())) \<and>
        (k \<noteq> length rows \<longrightarrow>
           snd load = Inl MySQLError \<and> pending (fst load) = [] \<and>
           stored (fst load) = take (batch_size * (k div batch_size)) rows)"
    if "load = csv \<and> (\<exists>defs. load_csv_col_defs fmt df = Inr defs \<and> \<not> create_fails accepts defs) \<or>
        load = mig \<and> \<not> create_fails accepts (migrate_col_defs fmt df)" for load
  proof -
    from that csv_ins mig_ins
    have "load = (case insert_batches rejects rows 0 (commit (drop_table c)) of
                   (c', Some e) \<Rightarrow> (rollback c', Inl e)
                 | (c', None) \<Rightarrow> (c', Inr ()))"
      by blast
    with phase show ?thesis by simp
  qed
  have bs: "batch_size = 1000" by (simp add: batch_size_def)
  from bs empty csv_create mig_create ins show ?thesis
    by (intro conjI allI impI) blast+
qed

text \<open>
  Instances: 1001 rows of which the server rejects the last, so that the first batch of
  1000 rows stays in the table and the loader raises; three rows, all accepted; and a
  table without rows that has a text column.
\<close>

theorem C6_batches_commit_rollback_witness:
  "load_csv_col_defs (\<lambda>c. ''0'') thousand_and_one = Inr [(''popularity'', BIGINT)] \<and>
   \<not> create_fails (\<lambda>defs. True) [(''popularity'', BIGINT)] \<and>
   accepted (\<lambda>r. r = [PyInt 2]) (map (\<lambda>r. r) (rows_of thousand_and_one)) \<noteq>
     length (map (\<lambda>r. r) (rows_of thousand_and_one)) \<and>
   snd (load_csv_to_mysql (\<lambda>c. ''0'') (\<lambda>defs. True) (\<lambda>r. r) (\<lambda>r. r = [PyInt 2])
          thousand_and_one \<lparr>stored = [[PyInt 7]], pending = []\<rparr>) = Inl MySQLError \<and>
   stored (fst (load_csv_to_mysql (\<lambda>c. ''0'') (\<lambda>defs. True) (\<lambda>r. r) (\<lambda>r. r = [PyInt 2])
          thousand_and_one \<lparr>stored = [[PyInt 7]], pending = []\<rparr>)) =
     replicate 1000 [PyInt 0] \<and>
   \<not> create_fails (\<lambda>defs. True) (migrate_col_defs (\<lambda>c. ''0'') three_rows) \<and>
   migrate_to_mysql (\<lambda>c. ''0'') (\<lambda>defs. True) (\<lambda>r. r) (\<lambda>r. r = [PyInt 2]) three_rows
       \<lparr>stored = [[PyInt 7]], pending = []\<rparr> =
     (\<lparr>stored = [[PyInt 0], [PyInt 0], [PyInt 0]], pending = []\<rparr>, Inr ()) \<and>
   load_csv_to_mysql (\<lambda>c. ''0'') (\<lambda>defs. True) (\<lambda>r. r) (\<lambda>r. r = [PyInt 2]) no_rows
       \<lparr>stored = [[PyInt 7]], pending = []\<rparr> =
     (\<lparr>stored = [], pending = []\<rparr>, Inl ValueError) \<and>
   migrate_to_mysql (\<lambda>c. ''0'') (\<lambda>defs. True) (\<lambda>r. r) (\<lambda>r. r = [PyInt 2]) no_rows
       \<lparr>stored = [[PyInt 7]], pending = []\<rparr> =
     (\<lparr>stored = [], pending = []\<rparr>, Inl MySQLError)"
proof -
  let ?f = "\<lambda>c::cell. ''0''"
  let ?acc = "\<lambda>defs::(string \<times> sql_type) list. True"
  let ?t = "\<lambda>r::cell list. r"
  let ?rej = "\<lambda>r. r = [PyInt 2]"
  let ?c = "\<lparr>stored = [[PyInt 7]], pending = []\<rparr>"
  let ?rows = "map ?t (rows_of thousand_and_one)"
  have rows: "?rows = replicate 1000 [PyInt 0] @ [[PyInt 2]]"
    by (simp add: thousand_and_one_def rows_of_single)
  have defs: "load_csv_col_defs ?f thousand_and_one = Inr [(''popularity'', BIGINT)]"
    by (simp add: thousand_and_one_def load_csv_col_type_def)
  have ok: "\<not> create_fails ?acc [(''popularity'', BIGINT)]"
    by (simp add: create_fails_def)
  have a: "accepted ?rej ?rows = 1000"
    unfolding rows by (simp add: accepted_def takeWhile_append)
  have ne: "accepted ?rej ?rows \<noteq> length ?rows"
    unfolding a unfolding rows by simp
  have tk: "take (batch_size * (1000 div batch_size)) ?rows = replicate 1000 [PyInt 0]"
    unfolding rows by (simp add: batch_size_def)
  have rows3: "map ?t (rows_of three_rows) = [[PyInt 0], [PyInt 0], [PyInt 0]]"
    by (simp add: three_rows_def rows_of_single)
  have ok3: "\<not> create_fails ?acc (migrate_col_defs ?f three_rows)"
    by (simp add: create_fails_def migrate_col_defs_def migrate_col_type_def three_rows_def)
  have a3: "accepted ?rej (map ?t (rows_of three_rows)) = length (map ?t (rows_of three_rows))"
    unfolding rows3 by (simp add: accepted_def)
  have e: "\<exists>col \<in> set (map snd no_rows). dtype col = Object \<and> cells col = []"
    by (simp add: no_rows_def)
  note T1 = C6_batches_commit_rollback [where fmt = ?f and df = thousand_and_one and accepts = ?acc
      and tuple_of = ?t and rejects = ?rej and c = ?c]
  note T3 = C6_batches_commit_rollback [where fmt = ?f and df = three_rows and accepts = ?acc
      and tuple_of = ?t and rejects = ?rej and c = ?c]
  note T0 = C6_batches_commit_rollback [where fmt = ?f and df = no_rows and accepts = ?acc
      and tuple_of = ?t and rejects = ?rej and c = ?c]
  from T1 defs ok ne
  have "snd (load_csv_to_mysql ?f ?acc ?t ?rej thousand_and_one ?c) = Inl MySQLError \<and>
    stored (fst (load_csv_to_mysql ?f ?acc ?t ?rej thousand_and_one ?c)) =
      take (batch_size * (accepted ?rej ?rows div batch_size)) ?rows"
    by blast
  then have one: "snd (load_csv_to_mysql ?f ?acc ?t ?rej thousand_and_one ?c) = Inl MySQLError \<and>
    stored (fst (load_csv_to_mysql ?f ?acc ?t ?rej thousand_and_one ?c)) = replicate 1000 [PyInt 0]"
    unfolding a tk .
  from T3 ok3 a3
  have "migrate_to_mysql ?f ?acc ?t ?rej three_rows ?c =
      (?c\<lparr>stored := map ?t (rows_of three_rows), pending := []\<rparr>, Inr ())"
    by blast
  then have three: "migrate_to_mysql ?f ?acc ?t ?rej three_rows ?c =
      (\<lparr>stored = [[PyInt 0], [PyInt 0], [PyInt 0]], pending = []\<rparr>, Inr ())"
    unfolding rows3 by simp
  from T0 e
  have "load_csv_to_mysql ?f ?acc ?t ?rej no_rows ?c = (drop_table ?c, Inl ValueError) \<and>
      migrate_to_mysql ?f ?acc ?t ?rej no_rows ?c = (drop_table ?c, Inl MySQLError)"
    by blast
  then have none: "load_csv_to_mysql ?f ?acc ?t ?rej no_rows ?c =
        (\<lparr>stored = [], pending = []\<rparr>, Inl ValueError) \<and>
      migrate_to_mysql ?f ?acc ?t ?rej no_rows ?c =
        (\<lparr>stored = [], pending = []\<rparr>, Inl MySQLError)"
    by (simp add: drop_table_def)
  from defs ok ne one ok3 three none show ?thesis
    by (intro conjI) (simp_all only: simp_thms)
qed

section \<open>Migration: reading the source table, properties\<close>

lemma str_replace_db: "str_replace ''.db'' ''.csv'' ''spotify_tracks.db'' = ''spotify_tracks.csv''"
  by (simp add: str_replace.simps [of _ _ "_ # _"] str_replace.simps [of _ _ "[]"])

text \<open>
  C9, at a database that has the table and no CSV file beside it: the direct read returns
  the rows of the table, \<open>read_sqlite\<close> raises \<open>FileNotFoundError\<close>. The CSV read is
  not dead code: it decides whether the function raises.
\<close>

theorem C9_read_sqlite_missing_csv:
  "read_sqlite db_without_csv ''spotify_tracks.db'' ''tracks'' = Inl FileNotFoundError \<and>
   read_sqlite_direct db_without_csv ''spotify_tracks.db'' ''tracks'' = Inr [1, 2]"
  by (simp add: read_sqlite_def read_sqlite_direct_def read_sql_def db_without_csv_def
      str_replace_db)

section \<open>Dashboard filter, properties\<close>

text \<open>
  C5, as stated, for the genre \<open>All\<close>: the select box uses this string for "no genre
  filter", so rows of every genre come back.
\<close>

theorem C5_filter_genre_All_counterexample:
  "\<not> (\<forall>g a b (df_all :: track list). a \<le> b \<longrightarrow>
        df_filtered (\<lambda>pat s. True) g [] (a, b) df_all =
        filter (\<lambda>r. track_genre r = PyStr g \<and> pop_ge (popularity r) a \<and> pop_le (popularity r) b)
          df_all)"
proof
  assume h: "\<forall>g a b (df_all :: track list). a \<le> b \<longrightarrow>
        df_filtered (\<lambda>pat s. True) g [] (a, b) df_all =
        filter (\<lambda>r. track_genre r = PyStr g \<and> pop_ge (popularity r) a \<and> pop_le (popularity r) b)
          df_all"
  from h [rule_format, of 0 100 "''All''" "[mk_track ''All'' 50, mk_track ''rock'' 50]"]
  show False
    by (simp add: df_filtered_def mk_track_def)
qed

text \<open>
  C5, amended. For every loaded table, every genre other than the string \<open>All\<close>, an
  empty artist search and every pair of popularity bounds, the filter returns exactly the
  rows, in their order, whose genre is the selected one and whose popularity lies between
  the bounds, both ends included; so the number of rows returned is the number of such
  rows.
\<close>

theorem C5_filter_correct:
  assumes "g \<noteq> ''All''"
  shows "df_filtered search g [] (a, b) df_all =
         filter (\<lambda>r. track_genre r = PyStr g \<and> pop_ge (popularity r) a \<and> pop_le (popularity r) b)
           df_all"
  using assms by (simp add: df_filtered_def)

text \<open>
  The example of the specification: 100 rows, 30 of them of genre pop with popularity at
  least 20 (here 50), 30 of genre pop with popularity 10 and 40 of genre rock. Genre pop
  and range (20, 100) return the 30 rows.
\<close>

theorem C5_filter_correct_witness:
  "''pop'' \<noteq> ''All'' \<and>
   length (replicate 30 (mk_track ''pop'' 10) @ replicate 40 (mk_track ''rock'' 50) @
           replicate 30 (mk_track ''pop'' 50)) = 100 \<and>
   df_filtered (\<lambda>pat s. True) ''pop'' [] (20, 100)
     (replicate 30 (mk_track ''pop'' 10) @ replicate 40 (mk_track ''rock'' 50) @
      replicate 30 (mk_track ''pop'' 50)) = replicate 30 (mk_track ''pop'' 50)"
proof -
  have g: "''pop'' \<noteq> ''All''" by simp
  show ?thesis
    using g C5_filter_correct [OF g, of "\<lambda>pat s. True" 20 100
        "replicate 30 (mk_track ''pop'' 10) @ replicate 40 (mk_track ''rock'' 50) @
         replicate 30 (mk_track ''pop'' 50)"]
    by (simp add: mk_track_def)
qed

section \<open>Tables and columns, properties\<close>

lemma map_of_set_col:
  "map_of (set_col n v df) m =
     (if m = n then (if n \<in> set (columns df) then Some v else None) else map_of df m)"
  by (induction df) (force simp: set_col_def columns_def)+

lemma columns_set_col: "columns (set_col n v df) = columns df"
  by (induction df) (auto simp: set_col_def columns_def)

lemma map_of_columns: "map_of df m = Some c \<Longrightarrow> m \<in> set (columns df)"
  by (auto simp: columns_def dest: map_of_SomeD intro: rev_image_eqI)

lemma columns_map_of: "m \<in> set (columns df) \<Longrightarrow> \<exists>c. map_of df m = Some c"
  by (metis columns_def domD dom_map_of_conv_image_fst list.set_map)

lemma map_of_None_columns: "map_of df m = None \<longleftrightarrow> m \<notin> set (columns df)"
  by (simp add: columns_def map_of_eq_None_iff)

lemma map_of_drop_columns:
  "map_of (drop_columns ns df) m = (if m \<in> set ns then None else map_of df m)"
  by (induction df) (auto simp: drop_columns_def)

lemma map_of_select_rows:
  "map_of (select_rows k df) m = map_option (keep_rows k) (map_of df m)"
  by (induction df) (auto simp: select_rows_def)

text \<open>A loop of column assignments.\<close>

lemma foldl_columns:
  assumes "\<And>df col. columns (f df col) = columns df"
  shows "columns (foldl f df cols) = columns df"
  by (induction cols arbitrary: df) (simp_all add: assms)

lemma foldl_map_of_other:
  assumes "\<And>df col m. m \<noteq> col \<Longrightarrow> map_of (f df col) m = map_of df m"
    and "m \<notin> set cols"
  shows "map_of (foldl f df cols) m = map_of df m"
  using assms(2) by (induction cols arbitrary: df) (simp_all add: assms(1))

lemma foldl_map_of_once:
  assumes other: "\<And>df col m. m \<noteq> col \<Longrightarrow> map_of (f df col) m = map_of df m"
    and self: "\<And>df col. map_of (f df col) col = map_option g (map_of df col)"
    and "distinct cols" and "m \<in> set cols"
  shows "map_of (foldl f df cols) m = map_option g (map_of df m)"
  using assms(3,4)
proof (induction cols arbitrary: df)
  case Nil
  then show ?case by simp
next
  case (Cons col cols)
  show ?case
  proof (cases "m = col")
    case True
    with Cons.prems have "m \<notin> set cols" by simp
    then have "map_of (foldl f (f df col) cols) m = map_of (f df col) m"
      using other by (rule foldl_map_of_other [rotated])
    with True show ?thesis by (simp add: self)
  next
    case False
    with Cons.prems have "m \<in> set cols" "distinct cols" by simp_all
    from Cons.IH [OF this(2,1)] False show ?thesis by (simp add: other)
  qed
qed


lemma fillna_without_null: "\<not> list_ex isnull (cells c) \<Longrightarrow> fillna v c = c"
  by (simp add: fillna_def)






lemma fill_text_columns: "columns (fill_text df col) = columns df"
  by (simp add: fill_text_def columns_set_col split: option.splits)

lemma coerce_fill_other: "m \<noteq> col \<Longrightarrow> map_of (coerce_fill pd df col) m = map_of df m"
  by (simp add: coerce_fill_def Let_def map_of_set_col split: option.splits)

lemma coerce_fill_columns: "columns (coerce_fill pd df col) = columns df"
  by (simp add: coerce_fill_def Let_def columns_set_col split: option.splits)

lemma coerce_fill_self:
  "map_of (coerce_fill pd df col) col =
     map_option (\<lambda>c. if \<not> isnull (median pd (to_numeric pd c))
                     then fillna (median pd (to_numeric pd c)) (to_numeric pd c)
                     else to_numeric pd c) (map_of df col)"
proof (cases "map_of df col")
  case None
  then show ?thesis by (simp add: coerce_fill_def)
next
  case (Some c)
  then have "col \<in> set (columns df)" by (rule map_of_columns)
  with Some show ?thesis
    by (simp add: coerce_fill_def Let_def map_of_set_col columns_set_col)
qed

lemma ensure_numeric_other: "m \<noteq> col \<Longrightarrow> map_of (ensure_numeric pd df col) m = map_of df m"
  by (simp add: ensure_numeric_def Let_def map_of_set_col split: option.splits)




lemma set_fromkeys: "set (fromkeys xs) = set xs"
  by (simp add: fromkeys_def)

lemma distinct_fromkeys: "distinct (fromkeys xs)"
  by (simp add: fromkeys_def)


lemma distinct_candidates: "distinct (numeric_candidates pd df)"
  by (simp add: numeric_candidates_def distinct_fromkeys)










text \<open>Rows kept by \<open>duplicated\<close> have distinct keys.\<close>

lemma kept_distinct:
  "distinct (map f (map fst (filter snd (zip xs (map Not (duplicated_from seen (map f xs))))))) \<and>
   set (map f (map fst (filter snd (zip xs (map Not (duplicated_from seen (map f xs))))))) \<inter>
     set seen = {}"
proof (induction xs arbitrary: seen)
  case Nil
  then show ?case by simp
next
  case (Cons x xs)
  from Cons.IH [of "f x # seen"] show ?case by auto
qed

lemma drop_duplicates_subset_distinct:
  assumes "map_of df n = Some c"
  shows "\<exists>c'. map_of (drop_duplicates_subset n df) n = Some c' \<and>
              distinct (map key_of (cells c'))"
  using assms kept_distinct [of key_of "cells c" "[]"]
  by (simp add: drop_duplicates_subset_def map_of_select_rows keep_rows_def duplicated_def)

text \<open>
  C2. For every input table with a \<open>track_id\<close> column, no two rows of the cleaned
  table share a track id: the cells of the column are pairwise different, also when
  compared as Python compares them (\<open>key_of\<close>).
\<close>

theorem C2_track_id_unique:
  assumes "''track_id'' \<in> set (columns df)"
  shows "\<exists>c. map_of (clean_data pd df) ''track_id'' = Some c \<and>
             distinct (map key_of (cells c)) \<and> distinct (cells c)"
proof -
  define df1 where "df1 = drop_index_column df"
  define df2 where "df2 = fill_text_columns df1"
  define df3 where "df3 = coerce_numeric pd df2"
  define df4 where "df4 = remove_duplicate_tracks df3"
  have res: "clean_data pd df = foldl (ensure_numeric pd) df4 audio_features"
    by (simp add: clean_data_def ensure_audio_numeric_def df1_def df2_def df3_def df4_def
        Let_def)
  from assms have "map_of df ''track_id'' \<noteq> None"
    by (simp add: map_of_None_columns)
  then have "map_of df1 ''track_id'' \<noteq> None"
    by (simp add: df1_def drop_index_column_def map_of_drop_columns)
  then have "''track_id'' \<in> set (columns df1)"
    by (simp add: map_of_None_columns)
  then have "''track_id'' \<in> set (columns df2)"
    by (simp add: df2_def fill_text_columns_def foldl_columns [where f = fill_text]
        fill_text_columns)
  then have in3: "''track_id'' \<in> set (columns df3)"
    by (simp add: df3_def coerce_numeric_def foldl_columns [where f = "coerce_fill pd"]
        coerce_fill_columns)
  then obtain c3 where "map_of df3 ''track_id'' = Some c3"
    using columns_map_of by blast
  from drop_duplicates_subset_distinct [OF this] in3
  obtain c where c: "map_of df4 ''track_id'' = Some c" "distinct (map key_of (cells c))"
    unfolding df4_def remove_duplicate_tracks_def by auto
  have "''track_id'' \<notin> set audio_features"
    by (simp add: audio_features_def)
  then have "map_of (foldl (ensure_numeric pd) df4 audio_features) ''track_id'' =
      map_of df4 ''track_id''"
    using ensure_numeric_other by (rule foldl_map_of_other [rotated])
  with c show ?thesis
    unfolding res by (auto simp: distinct_map)
qed

text \<open>
  Instances: four rows, three of them with the same track id; and track ids of which
  two are \<open>None\<close> and one is \<open>NaN\<close>, where one \<open>None\<close> and the \<open>NaN\<close> stay.
\<close>

theorem C2_track_id_unique_witness:
  "''track_id'' \<in> set (columns repeated_tracks) \<and>
   (\<exists>c. map_of (clean_data example_pandas repeated_tracks) ''track_id'' = Some c \<and>
        distinct (map key_of (cells c)) \<and> distinct (cells c)) \<and>
   ''track_id'' \<in> set (columns missing_ids) \<and>
   clean_data example_pandas missing_ids =
     [(''track_id'', \<lparr>dtype = Object, cells = [PyNone, Null, PyStr ''a'']\<rparr>)]"
proof -
  have h: "''track_id'' \<in> set (columns repeated_tracks)"
    by (simp add: columns_def repeated_tracks_def)
  have h': "''track_id'' \<in> set (columns missing_ids)"
    by (simp add: columns_def missing_ids_def)
  have e: "clean_data example_pandas missing_ids =
     [(''track_id'', \<lparr>dtype = Object, cells = [PyNone, Null, PyStr ''a'']\<rparr>)]"
    by code_simp
  from C2_track_id_unique [OF h, of example_pandas] h h' e show ?thesis
    by simp
qed

text \<open>
  C3, at the table \<open>repeated_tracks\<close>. The first pass samples the album names
  Red, Red, Red, 1989, of which one in four reads as a number, and leaves the column as
  text; it then drops the repeated track ids. The second pass samples Red, 1989, one in
  two, coerces the column to numbers and fills the album Red with the median 1989. So
  \<open>clean_data\<close> is not idempotent.
\<close>

theorem C3_second_pass_changes_table:
  "clean_data example_pandas repeated_tracks =
     [(''track_id'', \<lparr>dtype = Object, cells = [PyStr ''a'', PyStr ''b'']\<rparr>),
      (''album_name'', \<lparr>dtype = Object, cells = [PyStr ''Red'', PyStr ''1989'']\<rparr>)] \<and>
   clean_data example_pandas (clean_data example_pandas repeated_tracks) =
     [(''track_id'', \<lparr>dtype = Object, cells = [PyStr ''a'', PyStr ''b'']\<rparr>),
      (''album_name'', \<lparr>dtype = Float64, cells = [PyFloat 1989, PyFloat 1989]\<rparr>)] \<and>
   clean_data example_pandas (clean_data example_pandas repeated_tracks) \<noteq>
     clean_data example_pandas repeated_tracks"
  by code_simp

section \<open>Cleaning transform on the object store, properties\<close>

lemma store_loop:
  "d < length h \<Longrightarrow>
   foldl (\<lambda>h col. h[d := f (h ! d) col]) h cols = h[d := foldl f (h ! d) cols]"
proof (induction cols arbitrary: h)
  case Nil
  then show ?case by simp
next
  case (Cons col cols)
  then show ?case by simp
qed

text \<open>
  C10. \<open>clean_data\<close> does not change its argument: the object returned is a new one,
  it holds the cleaned table, and every object of the store before the call, the
  argument among them, holds the table it held.
\<close>

theorem C10_argument_unchanged:
  assumes "df0 < length h0"
  shows "case clean_data_store pd df0 h0 of
           (df, h) \<Rightarrow>
             length h0 \<le> df \<and> df < length h \<and>
             h ! df = clean_data pd (h0 ! df0) \<and>
             (\<forall>i < length h0. h ! i = h0 ! i)"
  using assms
  by (simp add: clean_data_store_def clean_data_def drop_index_column_def
      fill_text_columns_def coerce_numeric_def remove_duplicate_tracks_def
      ensure_audio_numeric_def new_object_def Let_def store_loop nth_append nth_list_update)

text \<open>An instance: a store that holds one table.\<close>

theorem C10_argument_unchanged_witness:
  "(0::nat) < length [repeated_tracks] \<and>
   fst (clean_data_store example_pandas 0 [repeated_tracks]) \<noteq> 0 \<and>
   snd (clean_data_store example_pandas 0 [repeated_tracks]) ! 0 = repeated_tracks \<and>
   snd (clean_data_store example_pandas 0 [repeated_tracks]) !
     fst (clean_data_store example_pandas 0 [repeated_tracks]) =
       clean_data example_pandas repeated_tracks"
proof -
  have h: "(0::nat) < length [repeated_tracks]" by simp
  from C10_argument_unchanged [OF h, of example_pandas] show ?thesis
    by (simp add: case_prod_unfold)
qed

section \<open>Quality report, properties\<close>

lemma concat_single:
  assumes "distinct xs" and "x \<in> set xs" and "\<And>y. y \<in> set xs \<Longrightarrow> y \<noteq> x \<Longrightarrow> f y = []"
  shows "concat (map f xs) = f x"
  using assms
proof (induction xs)
  case Nil
  then show ?case by simp
next
  case (Cons y ys)
  show ?case
  proof (cases "y = x")
    case True
    with Cons.prems have "\<And>z. z \<in> set ys \<Longrightarrow> f z = []" by auto
    then have "concat (map f ys) = []" by simp
    with True show ?thesis by simp
  next
    case False
    with Cons show ?thesis by auto
  qed
qed

text \<open>
  C4, as stated: a table with exactly one repeated track id and exactly one missing value
  in a critical column gets a report with exactly these two issues. It fails when the
  table also has the \<open>Unnamed: 0\<close> column: the report lists that third issue.
\<close>

theorem C4_extra_issue_counterexample:
  "\<not> (\<forall>df tc col c.
         map_of df ''track_id'' = Some tc \<and>
         true_sum (duplicated (map key_of (cells tc))) = 1 \<and>
         col \<in> set critical_cols \<and> map_of df col = Some c \<and> isnull_sum c = 1 \<and>
         (\<forall>col' \<in> set critical_cols. \<forall>c'. col' \<noteq> col \<and> map_of df col' = Some c' \<longrightarrow>
            isnull_sum c' = 0) \<longrightarrow>
         duplicate_tracks (validate_cleaned_data df) = 1 \<and>
         issues (validate_cleaned_data df) = [DuplicateTrackIds 1, MissingValues col 1])"
proof
  assume h: "\<forall>df tc col c.
         map_of df ''track_id'' = Some tc \<and>
         true_sum (duplicated (map key_of (cells tc))) = 1 \<and>
         col \<in> set critical_cols \<and> map_of df col = Some c \<and> isnull_sum c = 1 \<and>
         (\<forall>col' \<in> set critical_cols. \<forall>c'. col' \<noteq> col \<and> map_of df col' = Some c' \<longrightarrow>
            isnull_sum c' = 0) \<longrightarrow>
         duplicate_tracks (validate_cleaned_data df) = 1 \<and>
         issues (validate_cleaned_data df) = [DuplicateTrackIds 1, MissingValues col 1]"
  have r: "issues (validate_cleaned_data flawed_with_index) =
      [DuplicateTrackIds 1, MissingValues ''artists'' 1, UnnamedStillPresent]"
    by code_simp
  have d: "true_sum (duplicated (map key_of [PyStr ''a'', PyStr ''a'', PyStr ''b''])) = 1"
    by code_simp
  have n: "isnull_sum \<lparr>dtype = Object, cells = [Null, PyStr ''x'', PyStr ''y'']\<rparr> = 1"
    "isnull_sum \<lparr>dtype = Object, cells = [PyStr ''a'', PyStr ''a'', PyStr ''b'']\<rparr> = 0"
    by (simp_all add: isnull_sum_def)
  let ?tc = "\<lparr>dtype = Object, cells = [PyStr ''a'', PyStr ''a'', PyStr ''b'']\<rparr>"
  let ?c = "\<lparr>dtype = Object, cells = [Null, PyStr ''x'', PyStr ''y'']\<rparr>"
  have "map_of flawed_with_index ''track_id'' = Some ?tc \<and>
      true_sum (duplicated (map key_of (cells ?tc))) = 1 \<and>
      ''artists'' \<in> set critical_cols \<and> map_of flawed_with_index ''artists'' = Some ?c \<and>
      isnull_sum ?c = 1 \<and>
      (\<forall>col' \<in> set critical_cols. \<forall>c'. col' \<noteq> ''artists'' \<and>
         map_of flawed_with_index col' = Some c' \<longrightarrow> isnull_sum c' = 0)"
    using d n by (auto simp: flawed_with_index_def flawed_def critical_cols_def)
  with h have "issues (validate_cleaned_data flawed_with_index) =
      [DuplicateTrackIds 1, MissingValues ''artists'' 1]"
    by blast
  then show False
    unfolding r by simp
qed

text \<open>
  C4, amended. For every table in which exactly one row repeats an earlier track id,
  exactly one cell of the critical columns is missing, every audio feature of the report
  is numeric and there is no \<open>Unnamed: 0\<close> column, the report counts one duplicate
  track id and its issues are exactly the two warnings: duplicate track ids found, and
  that critical column has one missing value.
\<close>

theorem C4_report_two_issues:
  assumes track: "map_of df ''track_id'' = Some tc"
    and dup: "true_sum (duplicated (map key_of (cells tc))) = 1"
    and crit: "col \<in> set critical_cols" "map_of df col = Some c" "isnull_sum c = 1"
    and rest: "\<forall>col' \<in> set critical_cols. \<forall>c'. col' \<noteq> col \<and> map_of df col' = Some c' \<longrightarrow>
                 isnull_sum c' = 0"
    and audio: "non_numeric_audio df = []"
    and unnamed: "''Unnamed: 0'' \<notin> set (columns df)"
  shows "duplicate_tracks (validate_cleaned_data df) = 1 \<and>
         issues (validate_cleaned_data df) = [DuplicateTrackIds 1, MissingValues col 1]"
proof -
  have d: "check_duplicate_tracks df = (1, [DuplicateTrackIds 1])"
    using track dup by (simp add: check_duplicate_tracks_def)
  have "check_critical df col' = []" if "col' \<in> set critical_cols" "col' \<noteq> col" for col'
    using rest that by (auto simp: check_critical_def split: option.splits)
  moreover have "distinct critical_cols"
    by (simp add: critical_cols_def)
  ultimately have "concat (map (check_critical df) critical_cols) = check_critical df col"
    using crit(1) by (intro concat_single) auto
  also have "\<dots> = [MissingValues col 1]"
    using crit(2,3) by (simp add: check_critical_def)
  finally show ?thesis
    using d audio unnamed by (simp add: validate_cleaned_data_def)
qed

text \<open>An instance: the table \<open>flawed\<close>.\<close>

theorem C4_report_two_issues_witness:
  "map_of flawed ''track_id'' =
     Some \<lparr>dtype = Object, cells = [PyStr ''a'', PyStr ''a'', PyStr ''b'']\<rparr> \<and>
   true_sum (duplicated (map key_of [PyStr ''a'', PyStr ''a'', PyStr ''b''])) = 1 \<and>
   ''artists'' \<in> set critical_cols \<and>
   map_of flawed ''artists'' = Some \<lparr>dtype = Object, cells = [Null, PyStr ''x'', PyStr ''y'']\<rparr> \<and>
   isnull_sum \<lparr>dtype = Object, cells = [Null, PyStr ''x'', PyStr ''y'']\<rparr> = 1 \<and>
   non_numeric_audio flawed = [] \<and>
   ''Unnamed: 0'' \<notin> set (columns flawed) \<and>
   duplicate_tracks (validate_cleaned_data flawed) = 1 \<and>
   issues (validate_cleaned_data flawed) = [DuplicateTrackIds 1, MissingValues ''artists'' 1]"
proof -
  let ?tc = "\<lparr>dtype = Object, cells = [PyStr ''a'', PyStr ''a'', PyStr ''b'']\<rparr>"
  let ?c = "\<lparr>dtype = Object, cells = [Null, PyStr ''x'', PyStr ''y'']\<rparr>"
  have track: "map_of flawed ''track_id'' = Some ?tc"
    by (simp add: flawed_def)
  have dup: "true_sum (duplicated (map key_of (cells ?tc))) = 1"
    by code_simp
  have crit: "''artists'' \<in> set critical_cols" "map_of flawed ''artists'' = Some ?c"
    "isnull_sum ?c = 1"
    by (simp_all add: critical_cols_def flawed_def isnull_sum_def)
  have rest: "\<forall>col' \<in> set critical_cols. \<forall>c'. col' \<noteq> ''artists'' \<and>
      map_of flawed col' = Some c' \<longrightarrow> isnull_sum c' = 0"
    by (auto simp: critical_cols_def flawed_def isnull_sum_def)
  have audio: "non_numeric_audio flawed = []"
    by code_simp
  have unnamed: "''Unnamed: 0'' \<notin> set (columns flawed)"
    by (simp add: columns_def flawed_def)
  from C4_report_two_issues [OF track dup crit rest audio unnamed] track dup crit audio unnamed
  show ?thesis by simp
qed

section \<open>Numeric candidates, properties\<close>

lemma set_add_candidate:
  "set (add_candidate pd df cands col) =
     set cands \<union>
     {x. x = col \<and> (\<exists>c. map_of df col = Some c \<and> dtype c = Object \<and> sample pd c \<noteq> [] \<and>
            max 1 (length (sample pd c) div 2) \<le> notna_sum pd (sample pd c))}"
  by (auto simp: add_candidate_def Let_def split: option.splits)

lemma set_foldl_add_candidate:
  "set (foldl (add_candidate pd df) cands cols) =
     set cands \<union>
     {x \<in> set cols. \<exists>c. map_of df x = Some c \<and> dtype c = Object \<and> sample pd c \<noteq> [] \<and>
            max 1 (length (sample pd c) div 2) \<le> notna_sum pd (sample pd c)}"
proof (induction cols arbitrary: cands)
  case Nil
  then show ?case by simp
next
  case (Cons col cols)
  show ?case
    unfolding foldl_Cons Cons.IH set_add_candidate by auto
qed

lemma sample_first_20:
  "sample pd c =
     map (astype_str (number_str pd)) (take 20 (filter (\<lambda>x. \<not> isnull x) (cells c)))"
  by (simp add: sample_def take_map)

text \<open>
  C7, as stated: a text column outside the declared list is promoted exactly when a
  majority of its sample reads as numbers. It fails for a column of three values of
  which one reads as a number: the column is promoted.
\<close>

theorem C7_minority_promoted_counterexample:
  "\<not> (\<forall>pd df col c.
         col \<notin> set declared_numeric \<and> map_of df col = Some c \<and> dtype c = Object \<longrightarrow>
         (col \<in> set (numeric_candidates pd df) \<longleftrightarrow>
            length (sample pd c) < 2 * notna_sum pd (sample pd c)))"
proof
  assume h: "\<forall>pd df col c.
         col \<notin> set declared_numeric \<and> map_of df col = Some c \<and> dtype c = Object \<longrightarrow>
         (col \<in> set (numeric_candidates pd df) \<longleftrightarrow>
            length (sample pd c) < 2 * notna_sum pd (sample pd c))"
  have e: "''note'' \<in> set (numeric_candidates example_pandas [(''note'', one_of_three)])"
    "notna_sum example_pandas (sample example_pandas one_of_three) = 1"
    "length (sample example_pandas one_of_three) = 3"
    by code_simp+
  have "''note'' \<notin> set declared_numeric \<and>
      map_of [(''note'', one_of_three)] ''note'' = Some one_of_three \<and>
      dtype one_of_three = Object"
    by (simp add: declared_numeric_def one_of_three_def)
  with h e(1)
  have "length (sample example_pandas one_of_three) <
      2 * notna_sum example_pandas (sample example_pandas one_of_three)"
    by blast
  then show False
    unfolding e by simp
qed

text \<open>
  C7, amended. For every column of the table that is not in the declared list, the
  column is promoted to a numeric candidate exactly when its dtype is object, the sample
  of its first 20 non-null values is not empty, and the number of sample values that
  \<open>to_numeric\<close> reads as numbers is at least \<open>max(1, len(sample) // 2)\<close>; a column
  whose sample is empty is never promoted. The coercion step replaces a promoted column
  by its coercion to numeric, with the missing cells filled by the median when the
  median is not \<open>NaN\<close>; it leaves every other column outside the declared list as it
  is.
\<close>

theorem C7_promotion_threshold:
  fixes pd :: pandas
  assumes "col \<notin> set declared_numeric" and "map_of df col = Some c"
  defines "promoted \<equiv> dtype c = Object \<and> sample pd c \<noteq> [] \<and>
             max 1 (length (sample pd c) div 2) \<le> notna_sum pd (sample pd c)"
  shows "sample pd c =
           map (astype_str (number_str pd)) (take 20 (filter (\<lambda>x. \<not> isnull x) (cells c))) \<and>
         (col \<in> set (numeric_candidates pd df) \<longleftrightarrow> promoted) \<and>
         (promoted \<longrightarrow>
            map_of (coerce_numeric pd df) col =
              Some (if \<not> isnull (median pd (to_numeric pd c))
                    then fillna (median pd (to_numeric pd c)) (to_numeric pd c)
                    else to_numeric pd c)) \<and>
         (\<not> promoted \<longrightarrow> map_of (coerce_numeric pd df) col = Some c)"
proof -
  have iff: "col \<in> set (numeric_candidates pd df) \<longleftrightarrow> promoted"
    using assms(1,2) map_of_columns [OF assms(2)]
    by (auto simp: promoted_def numeric_candidates_def set_fromkeys set_foldl_add_candidate)
  have yes: "map_of (coerce_numeric pd df) col =
        Some (if \<not> isnull (median pd (to_numeric pd c))
              then fillna (median pd (to_numeric pd c)) (to_numeric pd c)
              else to_numeric pd c)" if promoted
  proof -
    from that iff have "col \<in> set (numeric_candidates pd df)"
      by simp
    from foldl_map_of_once [where f = "coerce_fill pd", OF coerce_fill_other
        coerce_fill_self distinct_candidates this]
    show ?thesis
      using assms(2) by (simp add: coerce_numeric_def)
  qed
  have no: "map_of (coerce_numeric pd df) col = Some c" if "\<not> promoted"
  proof -
    from that iff have "col \<notin> set (numeric_candidates pd df)"
      by simp
    with coerce_fill_other have "map_of (coerce_numeric pd df) col = map_of df col"
      unfolding coerce_numeric_def by (rule foldl_map_of_other)
    with assms(2) show ?thesis by simp
  qed
  from iff yes no sample_first_20 [of pd c] show ?thesis by blast
qed

text \<open>An instance: the column of three values of which one reads as a number.\<close>

theorem C7_promotion_threshold_witness:
  "''note'' \<notin> set declared_numeric \<and>
   map_of [(''note'', one_of_three)] ''note'' = Some one_of_three \<and>
   dtype one_of_three = Object \<and> sample example_pandas one_of_three = [''1'', ''x'', ''y''] \<and>
   notna_sum example_pandas (sample example_pandas one_of_three) = 1 \<and>
   ''note'' \<in> set (numeric_candidates example_pandas [(''note'', one_of_three)]) \<and>
   map_of (coerce_numeric example_pandas [(''note'', one_of_three)]) ''note'' =
     Some \<lparr>dtype = Float64, cells = [PyFloat 1, PyFloat 1, PyFloat 1]\<rparr>"
proof -
  have h: "''note'' \<notin> set declared_numeric"
    "map_of [(''note'', one_of_three)] ''note'' = Some one_of_three"
    by (simp_all add: declared_numeric_def)
  have e: "dtype one_of_three = Object"
    "sample example_pandas one_of_three = [''1'', ''x'', ''y'']"
    "notna_sum example_pandas (sample example_pandas one_of_three) = 1"
    by code_simp+
  have f: "(if \<not> isnull (median example_pandas (to_numeric example_pandas one_of_three))
       then fillna (median example_pandas (to_numeric example_pandas one_of_three))
              (to_numeric example_pandas one_of_three)
       else to_numeric example_pandas one_of_three) =
      \<lparr>dtype = Float64, cells = [PyFloat 1, PyFloat 1, PyFloat 1]\<rparr>"
    by code_simp
  from C7_promotion_threshold [OF h, where pd = example_pandas] h e
  show ?thesis
    unfolding f by simp
qed

end
